theory Spec2Isabelle
  imports Main "HOL-Library.Sublist"
begin

section \<open>Time Zone Meeting Planner: a model of \<^verbatim>\<open>marcel_streamlit.py\<close>\<close>

text \<open>
  The program has two pure parts: \<^verbatim>\<open>get_timezone\<close>, which resolves a country name to a
  zone identifier through the cached country table, and \<^verbatim>\<open>find_best_talk_time\<close>, which
  intersects two awake windows. Both are embedded below as HOL functions. What the program
  takes from its libraries is written out where the source depends on it:
  \<^item> the pandas table is a record of column names and rows, with missing cells as \<open>NaN\<close>;
  \<^item> \<^verbatim>\<open>Series.str.contains(pat, case=False, na=False)\<close> keeps pandas' default
    \<^verbatim>\<open>regex=True\<close>: the query is compiled as a regular expression and searched in every name;
  \<^item> \<^verbatim>\<open>eval\<close> of the \<^verbatim>\<open>timezones\<close> cell is modelled on list literals of plain string literals;
  \<^item> the time-zone database (\<^verbatim>\<open>pytz.timezone\<close>) and the clock (\<^verbatim>\<open>datetime.now()\<close>) are
    parameters.
  Every exception the source can raise is a result of the model; inputs on which a library's behaviour is
  not modelled give the third outcome \<open>Unmodelled\<close>, about which nothing is claimed.
\<close>

subsection \<open>Outcomes and exceptions\<close>

datatype py_exn =
    KeyError string
  | ValueError string
  | AttributeError string
  | TypeError string
  | IndexError string
  | ReError
  | UnknownTimeZoneError string
  | FileNotFoundError string
  | OverflowError

datatype 'a outcome = Returns 'a | Raises py_exn | Unmodelled

fun obind :: "'a outcome \<Rightarrow> ('a \<Rightarrow> 'b outcome) \<Rightarrow> 'b outcome" where
  "obind (Returns x) f = f x"
| "obind (Raises e) f = Raises e"
| "obind Unmodelled f = Unmodelled"

fun omap :: "('a \<Rightarrow> 'b) \<Rightarrow> 'a outcome \<Rightarrow> 'b outcome" where
  "omap g (Returns x) = Returns (g x)"
| "omap g (Raises e) = Raises e"
| "omap g Unmodelled = Unmodelled"

subsection \<open>The country table\<close>

text \<open>
  A cell read by \<^verbatim>\<open>pd.read_csv\<close> from a text column is a string or missing (\<open>NaN\<close>).
  A row lists its cells by column name; a column a row has no cell for reads as \<open>NaN\<close>.
\<close>

datatype cell = NaN | Str string

type_synonym row = "(string \<times> cell) list"

record dataframe =
  columns :: "string list"
  rows :: "row list"

definition DataFrame_empty :: dataframe where
  \<comment> \<open>\<^verbatim>\<open>pd.DataFrame()\<close>: no columns, no rows\<close>
  "DataFrame_empty = \<lparr>columns = [], rows = []\<rparr>"

definition exn_str :: "py_exn \<Rightarrow> string" where
  "exn_str e = (case e of KeyError m \<Rightarrow> m | ValueError m \<Rightarrow> m | AttributeError m \<Rightarrow> m
     | TypeError m \<Rightarrow> m | IndexError m \<Rightarrow> m | ReError \<Rightarrow> ''error''
     | UnknownTimeZoneError m \<Rightarrow> m | FileNotFoundError m \<Rightarrow> m
     | OverflowError \<Rightarrow> ''overflow'')"

definition load_country_data :: "py_exn + dataframe \<Rightarrow> dataframe \<times> string option" where
  \<comment> \<open>The argument is what \<^verbatim>\<open>pd.read_csv('countries_data.csv')\<close> did: raise or return a
      table. The second component is the message shown by \<^verbatim>\<open>st.error\<close>, if any.\<close>
  "load_country_data read_csv =
     (case read_csv of
        Inr df \<Rightarrow> (df, None)
      | Inl e \<Rightarrow> (DataFrame_empty, Some (''Error loading countries data: '' @ exn_str e)))"

definition row_cell :: "row \<Rightarrow> string \<Rightarrow> cell" where
  "row_cell r col = (case map_of r col of Some c \<Rightarrow> c | None \<Rightarrow> NaN)"

definition getitem_column :: "dataframe \<Rightarrow> string \<Rightarrow> cell list outcome" where
  \<comment> \<open>\<^verbatim>\<open>df[col]\<close>\<close>
  "getitem_column df col =
     (if col \<in> set (columns df) then Returns (map (\<lambda>r. row_cell r col) (rows df))
      else Raises (KeyError col))"

definition boolean_index :: "dataframe \<Rightarrow> bool list \<Rightarrow> dataframe" where
  \<comment> \<open>\<^verbatim>\<open>df[keep]\<close>: the rows whose entry in the boolean series is true, in table order\<close>
  "boolean_index df keep = df\<lparr>rows := map fst (filter snd (zip (rows df) keep))\<rparr>"

definition df_empty :: "dataframe \<Rightarrow> bool" where
  \<comment> \<open>\<^verbatim>\<open>df.empty\<close>: some axis has length 0\<close>
  "df_empty df = (columns df = [] \<or> rows df = [])"

subsection \<open>Regular-expression search, as far as it is modelled\<close>

text \<open>
  \<^verbatim>\<open>str.contains\<close> compiles the query with \<^verbatim>\<open>re.compile(pat, re.IGNORECASE)\<close> and keeps a
  name when \<^verbatim>\<open>search\<close> finds a match. The modelled patterns are sequences of ordinary
  characters, \<^verbatim>\<open>.\<close> (any character but a newline) and grouping parentheses; a pattern
  with any other special character is outside the model. Characters are ASCII: a pattern
  or a name with a byte above 127 is outside the model too.
\<close>

datatype atom = Lit char | AnyChar

datatype compiled = Compiled "atom list" | CompileError | NotModelled

definition is_ascii :: "char \<Rightarrow> bool" where
  "is_ascii c = ((of_char c :: nat) < 128)"

definition ascii_lower :: "char \<Rightarrow> char" where
  "ascii_lower c =
     (let n = (of_char c :: nat) in if 65 \<le> n \<and> n \<le> 90 then char_of (n + 32) else c)"

definition other_special :: "char list" where
  \<comment> \<open>the special characters of \<^verbatim>\<open>re\<close> that the model does not interpret\<close>
  "other_special =
     [CHR ''^'', CHR ''$'', CHR ''*'', CHR ''+'', CHR ''?'', CHR ''{'', CHR ''}'',
      CHR ''['', CHR '']'', CHR ''|'', CHR 0x5C]"

fun re_parse :: "nat \<Rightarrow> string \<Rightarrow> atom list option" where
  \<comment> \<open>the first argument counts the groups still open; \<open>None\<close> is \<^verbatim>\<open>re.error\<close>\<close>
  "re_parse d [] = (if d = 0 then Some [] else None)"
| "re_parse d (c # cs) =
     (if c = CHR ''('' then re_parse (Suc d) cs
      else if c = CHR '')'' then (if d = 0 then None else re_parse (d - 1) cs)
      else if c = CHR ''.'' then map_option (Cons AnyChar) (re_parse d cs)
      else map_option (Cons (Lit c)) (re_parse d cs))"

definition re_compile :: "string \<Rightarrow> compiled" where
  "re_compile pat =
     (if (\<exists>c \<in> set pat. c \<in> set other_special \<or> \<not> is_ascii c) then NotModelled
      else (case re_parse 0 pat of None \<Rightarrow> CompileError | Some atoms \<Rightarrow> Compiled atoms))"

fun atom_matches :: "atom \<Rightarrow> char \<Rightarrow> bool" where
  "atom_matches (Lit c) t = (ascii_lower c = ascii_lower t)"
| "atom_matches AnyChar t = (t \<noteq> CHR 0x0A)"

fun match_here :: "atom list \<Rightarrow> string \<Rightarrow> bool" where
  "match_here [] s = True"
| "match_here (a # as) [] = False"
| "match_here (a # as) (t # ts) = (atom_matches a t \<and> match_here as ts)"

fun re_search :: "atom list \<Rightarrow> string \<Rightarrow> bool" where
  "re_search p [] = match_here p []"
| "re_search p (t # ts) = (match_here p (t # ts) \<or> re_search p ts)"

definition cell_ascii :: "cell \<Rightarrow> bool" where
  "cell_ascii c = (case c of NaN \<Rightarrow> True | Str s \<Rightarrow> list_all is_ascii s)"

definition str_contains :: "cell list \<Rightarrow> string \<Rightarrow> bool list outcome" where
  \<comment> \<open>\<^verbatim>\<open>series.str.contains(pat, case=False, na=False)\<close>. The \<^verbatim>\<open>.str\<close> accessor is refused
      on a column that has rows but no string (read as a float column of \<open>NaN\<close>).\<close>
  "str_contains series pat =
     (if series \<noteq> [] \<and> list_all (\<lambda>c. c = NaN) series
      then Raises (AttributeError ''Can only use .str accessor with string values!'')
      else if \<not> list_all cell_ascii series then Unmodelled
      else (case re_compile pat of
              NotModelled \<Rightarrow> Unmodelled
            | CompileError \<Rightarrow> Raises ReError
            | Compiled p \<Rightarrow>
                Returns (map (\<lambda>c. case c of NaN \<Rightarrow> False | Str s \<Rightarrow> re_search p s) series)))"

subsection \<open>Evaluating the \<^verbatim>\<open>timezones\<close> cell\<close>

text \<open>
  The cell holds a serialised list such as \<^verbatim>\<open>['UTC+05:30', 'UTC+06:00']\<close>, which the source
  passes to \<^verbatim>\<open>eval\<close>. The model reads list literals of string literals in single or double
  quotes, without escapes, separated by commas, with spaces between tokens. Any other text
  is outside the model (\<open>None\<close>).
\<close>

datatype token = LBracket | RBracket | Comma | StrLit string

fun py_tokens :: "(char \<times> string) option \<Rightarrow> string \<Rightarrow> token list option" where
  \<comment> \<open>the first argument is the open quote and the reversed text read since, inside a literal\<close>
  "py_tokens None [] = Some []"
| "py_tokens (Some qa) [] = None"
| "py_tokens None (c # cs) =
     (if c = CHR '' '' then py_tokens None cs
      else if c = CHR ''['' then map_option (Cons LBracket) (py_tokens None cs)
      else if c = CHR '']'' then map_option (Cons RBracket) (py_tokens None cs)
      else if c = CHR '','' then map_option (Cons Comma) (py_tokens None cs)
      else if c = CHR 0x27 \<or> c = CHR 0x22 then py_tokens (Some (c, [])) cs
      else None)"
| "py_tokens (Some (q, acc)) (c # cs) =
     (if c = q then map_option (Cons (StrLit (rev acc))) (py_tokens None cs)
      else if c = CHR 0x5C \<or> c = CHR 0x0A \<or> c = CHR 0x0D then None
      else py_tokens (Some (q, c # acc)) cs)"

fun more_items :: "token list \<Rightarrow> string list option" where
  "more_items [RBracket] = Some []"
| "more_items (Comma # StrLit s # ts) = map_option (Cons s) (more_items ts)"
| "more_items ts = None"

fun list_items :: "token list \<Rightarrow> string list option" where
  "list_items [LBracket, RBracket] = Some []"
| "list_items (LBracket # StrLit s # ts) = map_option (Cons s) (more_items ts)"
| "list_items ts = None"

definition eval_str_list :: "string \<Rightarrow> string list option" where
  "eval_str_list src = (case py_tokens None src of None \<Rightarrow> None | Some ts \<Rightarrow> list_items ts)"

subsection \<open>The resolver: \<^verbatim>\<open>get_timezone\<close>\<close>

definition utc_to_iana :: "(string \<times> string) list" where
  \<comment> \<open>the dictionary of the source, in insertion order\<close>
  "utc_to_iana =
    [(''UTC+00:00'', ''UTC''),
     (''UTC+01:00'', ''Europe/Paris''),
     (''UTC+02:00'', ''Europe/Kiev''),
     (''UTC+03:00'', ''Europe/Moscow''),
     (''UTC+04:00'', ''Asia/Dubai''),
     (''UTC+05:00'', ''Asia/Karachi''),
     (''UTC+05:30'', ''Asia/Kolkata''),
     (''UTC+06:00'', ''Asia/Dhaka''),
     (''UTC+07:00'', ''Asia/Bangkok''),
     (''UTC+08:00'', ''Asia/Shanghai''),
     (''UTC+09:00'', ''Asia/Tokyo''),
     (''UTC+09:30'', ''Australia/Darwin''),
     (''UTC+10:00'', ''Australia/Sydney''),
     (''UTC+11:00'', ''Pacific/Noumea''),
     (''UTC+12:00'', ''Pacific/Auckland''),
     (''UTC-01:00'', ''Atlantic/Azores''),
     (''UTC-02:00'', ''America/Noronha''),
     (''UTC-03:00'', ''America/Sao_Paulo''),
     (''UTC-04:00'', ''America/New_York''),
     (''UTC-05:00'', ''America/Chicago''),
     (''UTC-06:00'', ''America/Denver''),
     (''UTC-07:00'', ''America/Phoenix''),
     (''UTC-08:00'', ''America/Los_Angeles''),
     (''UTC-09:00'', ''America/Anchorage''),
     (''UTC-10:00'', ''Pacific/Honolulu''),
     (''UTC-11:00'', ''Pacific/Midway''),
     (''UTC-12:00'', ''Pacific/Wake'')]"

fun startswith :: "string \<Rightarrow> string \<Rightarrow> bool" where
  \<comment> \<open>\<^verbatim>\<open>s.startswith(p)\<close>\<close>
  "startswith s [] = True"
| "startswith [] (p # ps) = False"
| "startswith (c # cs) (p # ps) = (c = p \<and> startswith cs ps)"

fun first_startswith :: "(string \<times> string) list \<Rightarrow> string \<Rightarrow> string" where
  \<comment> \<open>the loop over the dictionary's items, then the fall-through \<^verbatim>\<open>return timezone\<close>\<close>
  "first_startswith [] timezone = timezone"
| "first_startswith ((utc_offset, iana_zone) # items) timezone =
     (if startswith timezone utc_offset then iana_zone else first_startswith items timezone)"

definition not_found_message :: "string \<Rightarrow> string" where
  "not_found_message country_name =
     ''Country '' @ [CHR 0x27] @ country_name @ [CHR 0x27] @ '' not found in the dataset.''"

definition first_timezone :: "dataframe \<Rightarrow> string \<Rightarrow> string outcome" where
  \<comment> \<open>lines 34 to 39: filter the table, fail when nothing is left, evaluate the
      \<^verbatim>\<open>timezones\<close> cell of the first row left and take its first element\<close>
  "first_timezone countries_data country_name =
     obind (getitem_column countries_data ''name'') (\<lambda>names.
     obind (str_contains names country_name) (\<lambda>keep.
       let country_data = boolean_index countries_data keep in
       if df_empty country_data then Raises (ValueError (not_found_message country_name))
       else (case rows country_data of
               [] \<Rightarrow> Raises (IndexError ''single positional indexer is out-of-bounds'')
             | r # _ \<Rightarrow>
                 if ''timezones'' \<notin> set (columns country_data)
                 then Raises (KeyError ''timezones'')
                 else (case row_cell r ''timezones'' of
                         NaN \<Rightarrow> Raises (TypeError ''eval() arg 1 must be a string, bytes or code object'')
                       | Str src \<Rightarrow>
                           (case eval_str_list src of
                              None \<Rightarrow> Unmodelled
                            | Some [] \<Rightarrow> Raises (IndexError ''list index out of range'')
                            | Some (timezone # _) \<Rightarrow> Returns timezone)))))"

definition get_timezone :: "dataframe \<Rightarrow> string \<Rightarrow> string outcome" where
  "get_timezone countries_data country_name =
     omap (first_startswith utc_to_iana) (first_timezone countries_data country_name)"

subsection \<open>Dates, zones and formatting\<close>

text \<open>
  A naive \<^verbatim>\<open>datetime\<close> is its date, as the day number \<^verbatim>\<open>toordinal()\<close>, and its time
  fields. \<^verbatim>\<open>replace\<close> refuses an hour outside 0..23: with a \<^verbatim>\<open>ValueError\<close> when the hour
  fits a C \<^verbatim>\<open>int\<close> (32 bits, signed), with an \<^verbatim>\<open>OverflowError\<close> when it does not. The text of
  the \<^verbatim>\<open>OverflowError\<close> differs between interpreters and is left out.
\<close>

record datetime =
  ordinal :: int
  hour :: int
  minute :: int
  second :: int
  microsecond :: int

definition replace_hour :: "datetime \<Rightarrow> int \<Rightarrow> datetime outcome" where
  \<comment> \<open>\<^verbatim>\<open>now.replace(hour=h, minute=0, second=0, microsecond=0)\<close>\<close>
  "replace_hour now h =
     (if 0 \<le> h \<and> h \<le> 23
      then Returns (now\<lparr>hour := h, minute := 0, second := 0, microsecond := 0\<rparr>)
      else if - 2147483648 \<le> h \<and> h \<le> 2147483647
      then Raises (ValueError ''hour must be in 0..23'')
      else Raises OverflowError)"

definition wall_seconds :: "datetime \<Rightarrow> int" where
  \<comment> \<open>the wall-clock reading in whole seconds since midnight of day 0\<close>
  "wall_seconds dt = ((ordinal dt * 24 + hour dt) * 60 + minute dt) * 60 + second dt"

text \<open>
  A zone of the time library is taken as the two conversions the source uses:
  \<open>localize_utc\<close> gives, for a wall-clock reading, the UTC reading of
  \<^verbatim>\<open>tz.localize(dt).astimezone(pytz.UTC)\<close>; \<open>utc_to_wall\<close> gives, for a UTC reading, the
  wall-clock reading of \<^verbatim>\<open>dt.astimezone(tz)\<close>. Aware datetimes are compared by their UTC
  reading.
\<close>

record tzinfo =
  localize_utc :: "int \<Rightarrow> int"
  utc_to_wall :: "int \<Rightarrow> int"

definition fixed_offset :: "int \<Rightarrow> tzinfo" where
  \<comment> \<open>a zone that is always \<open>off\<close> seconds ahead of UTC\<close>
  "fixed_offset off = \<lparr>localize_utc = (\<lambda>w. w - off), utc_to_wall = (\<lambda>u. u + off)\<rparr>"

definition pytz_timezone :: "(string \<Rightarrow> tzinfo option) \<Rightarrow> string \<Rightarrow> tzinfo outcome" where
  \<comment> \<open>\<^verbatim>\<open>pytz.timezone(zone)\<close> over the zone database \<open>db\<close>\<close>
  "pytz_timezone db zone =
     (case db zone of None \<Rightarrow> Raises (UnknownTimeZoneError zone) | Some tz \<Rightarrow> Returns tz)"

definition digit_char :: "nat \<Rightarrow> char" where
  "digit_char n = char_of (48 + n)"

definition two_digits :: "nat \<Rightarrow> string" where
  "two_digits n = [digit_char (n div 10), digit_char (n mod 10)]"

definition strftime_HM :: "int \<Rightarrow> string" where
  \<comment> \<open>\<^verbatim>\<open>strftime('%H:%M')\<close> of the datetime with this wall-clock reading\<close>
  "strftime_HM w = two_digits (nat ((w div 3600) mod 24)) @ '':'' @ two_digits (nat ((w div 60) mod 60))"

definition time_range :: "int \<Rightarrow> int \<Rightarrow> string" where
  "time_range a b = strftime_HM a @ '' to '' @ strftime_HM b"

subsection \<open>The calculator: \<^verbatim>\<open>find_best_talk_time\<close>\<close>

datatype talk_result =
    Success (country1_time: string) (country2_time: string) (utc_time: string)
  | Error (message: string)

definition advisory :: string where
  "advisory = ''There'' @ [CHR 0x27] @ ''s no common awake time today. Consider adjusting schedules.''"

definition overlap_interval ::
  "tzinfo \<Rightarrow> tzinfo \<Rightarrow> datetime \<Rightarrow> int \<times> int \<Rightarrow> int \<times> int \<Rightarrow> (int \<times> int) outcome" where
  \<comment> \<open>lines 86 to 104: the four wake times, in UTC, and their intersection\<close>
  "overlap_interval timezone1 timezone2 now wake_hours1 wake_hours2 =
     obind (replace_hour now (fst wake_hours1)) (\<lambda>start1.
     obind (replace_hour now (snd wake_hours1)) (\<lambda>end1.
     obind (replace_hour now (fst wake_hours2)) (\<lambda>start2.
     obind (replace_hour now (snd wake_hours2)) (\<lambda>end2.
       let wake_start1_utc = localize_utc timezone1 (wall_seconds start1);
           wake_end1_utc = localize_utc timezone1 (wall_seconds end1);
           wake_start2_utc = localize_utc timezone2 (wall_seconds start2);
           wake_end2_utc = localize_utc timezone2 (wall_seconds end2);
           overlap_start = max wake_start1_utc wake_start2_utc;
           overlap_end = min wake_end1_utc wake_end2_utc
       in Returns (overlap_start, overlap_end)))))"

definition compute_overlap ::
  "tzinfo \<Rightarrow> tzinfo \<Rightarrow> datetime \<Rightarrow> int \<times> int \<Rightarrow> int \<times> int \<Rightarrow> talk_result outcome" where
  \<comment> \<open>lines 86 to 123: the body of \<^verbatim>\<open>find_best_talk_time\<close> once both zones are known\<close>
  "compute_overlap timezone1 timezone2 now wake_hours1 wake_hours2 =
     obind (overlap_interval timezone1 timezone2 now wake_hours1 wake_hours2)
       (\<lambda>(overlap_start, overlap_end).
          if overlap_start < overlap_end
          then Returns (Success
                 (time_range (utc_to_wall timezone1 overlap_start) (utc_to_wall timezone1 overlap_end))
                 (time_range (utc_to_wall timezone2 overlap_start) (utc_to_wall timezone2 overlap_end))
                 (time_range overlap_start overlap_end))
          else Returns (Error advisory))"

definition find_best_talk_time ::
  "(string \<Rightarrow> tzinfo option) \<Rightarrow> dataframe \<Rightarrow> datetime \<Rightarrow> string \<Rightarrow> string \<Rightarrow>
   int \<times> int \<Rightarrow> int \<times> int \<Rightarrow> int \<times> int \<Rightarrow> int \<times> int \<Rightarrow> talk_result outcome" where
  \<comment> \<open>\<open>db\<close>, \<open>countries_data\<close> and \<open>now\<close> are the zone database, the cached table and the
      result of \<^verbatim>\<open>datetime.now()\<close>; the other arguments are the source's, in its order\<close>
  "find_best_talk_time db countries_data now country1 country2
       wake_hours1 sleep_hours1 wake_hours2 sleep_hours2 =
     obind (get_timezone countries_data country1) (\<lambda>zone1.
     obind (pytz_timezone db zone1) (\<lambda>timezone1.
     obind (get_timezone countries_data country2) (\<lambda>zone2.
     obind (pytz_timezone db zone2) (\<lambda>timezone2.
       compute_overlap timezone1 timezone2 now wake_hours1 wake_hours2))))"

section \<open>Sample inputs\<close>

text \<open>
  The country file is not part of the sources. The tables below have its two columns, with
  the \<^verbatim>\<open>timezones\<close> cell written the way a list of labels is serialised.
\<close>

definition py_quote :: "string \<Rightarrow> string" where
  "py_quote s = [CHR 0x27] @ s @ [CHR 0x27]"

fun repr_items :: "string list \<Rightarrow> string" where
  "repr_items [] = []"
| "repr_items [s] = py_quote s"
| "repr_items (s # t # ts) = py_quote s @ '', '' @ repr_items (t # ts)"

definition country_row :: "string \<Rightarrow> string list \<Rightarrow> row" where
  "country_row name labels =
     [(''name'', Str name), (''timezones'', Str (''['' @ repr_items labels @ '']''))]"

definition country_table :: "row list \<Rightarrow> dataframe" where
  "country_table rs = \<lparr>columns = [''name'', ''timezones''], rows = rs\<rparr>"

definition sample_table :: dataframe where
  "sample_table = country_table
     [country_row ''France'' [''UTC-10:00'', ''UTC-09:30'', ''UTC+01:00''],
      country_row ''Bolivia (Plurinational State of)'' [''UTC-04:00''],
      country_row ''India'' [''UTC+05:30''],
      country_row ''Iran (Islamic Republic of)'' [''UTC+03:30''],
      country_row ''Nepal'' [''UTC+05:45''],
      country_row ''Japan'' [''UTC+09:00 (JST)''],
      country_row ''United States of America'' [''UTC-08:00'', ''UTC-05:00'']]"

definition sample_zones :: "string \<Rightarrow> tzinfo option" where
  \<comment> \<open>a zone database with three zones, each at its offset in January\<close>
  "sample_zones zone =
     (if zone = ''Asia/Kolkata'' then Some (fixed_offset 19800)
      else if zone = ''America/Los_Angeles'' then Some (fixed_offset (- 28800))
      else if zone = ''UTC'' then Some (fixed_offset 0)
      else None)"

definition sample_now :: datetime where
  \<comment> \<open>15 January 2024, 13:05:07.000009\<close>
  "sample_now = \<lparr>ordinal = 738900, hour = 13, minute = 5, second = 7, microsecond = 9\<rparr>"

definition whole_hour_label :: "int \<Rightarrow> string" where
  \<comment> \<open>the label \<^verbatim>\<open>UTC+HH:00\<close> or \<^verbatim>\<open>UTC-HH:00\<close> of a whole-hour offset; zero is written with \<^verbatim>\<open>+\<close>\<close>
  "whole_hour_label h =
     ''UTC'' @ (if h < 0 then ''-'' else ''+'') @ two_digits (nat \<bar>h\<bar>) @ '':00''"

section \<open>Notions used to state the properties\<close>

definition hour_on_day :: "datetime \<Rightarrow> int \<Rightarrow> int" where
  \<comment> \<open>the wall-clock reading of \<open>h\<close>:00:00 on the date of \<open>now\<close>\<close>
  "hour_on_day now h = ordinal now * 86400 + h * 3600"

definition is_digit :: "char \<Rightarrow> bool" where
  "is_digit c = (48 \<le> (of_char c :: nat) \<and> (of_char c :: nat) \<le> 57)"

definition digit_value :: "char \<Rightarrow> nat" where
  "digit_value c = of_char c - 48"

fun is_hhmm :: "string \<Rightarrow> bool" where
  \<comment> \<open>two digits below 24, a colon, two digits below 60\<close>
  "is_hhmm [a, b, c, d, e] =
     (is_digit a \<and> is_digit b \<and> c = CHR '':'' \<and> is_digit d \<and> is_digit e
      \<and> 10 * digit_value a + digit_value b < 24 \<and> 10 * digit_value d + digit_value e < 60)"
| "is_hhmm s = False"

definition is_time_range :: "string \<Rightarrow> bool" where
  \<comment> \<open>the shape \<^verbatim>\<open>HH:MM to HH:MM\<close>\<close>
  "is_time_range s =
     (is_hhmm (take 5 s) \<and> take 4 (drop 5 s) = '' to '' \<and> is_hhmm (drop 9 s))"

fun swap_countries :: "talk_result \<Rightarrow> talk_result" where
  "swap_countries (Success t1 t2 u) = Success t2 t1 u"
| "swap_countries (Error m) = Error m"

definition window_text :: "int \<Rightarrow> int \<Rightarrow> string" where
  \<comment> \<open>the window as text: \<^verbatim>\<open>wake_hour:00 to sleep_hour:00\<close>, hours on two digits\<close>
  "window_text wake sleep = two_digits (nat wake) @ '':00 to '' @ two_digits (nat sleep) @ '':00''"

definition plain_query :: "string \<Rightarrow> bool" where
  \<comment> \<open>ASCII text with none of the special characters of regular expressions\<close>
  "plain_query q =
     list_all (\<lambda>c. is_ascii c \<and> c \<notin> set other_special
                  \<and> c \<noteq> CHR ''('' \<and> c \<noteq> CHR '')'' \<and> c \<noteq> CHR ''.'') q"

definition contains_ignoring_case :: "string \<Rightarrow> string \<Rightarrow> bool" where
  \<comment> \<open>\<open>q\<close> occurs in \<open>s\<close> as a substring, letter case aside\<close>
  "contains_ignoring_case s q = sublist (map ascii_lower q) (map ascii_lower s)"

section \<open>Properties of the resolver\<close>

subsection \<open>Prefix matching against the table\<close>

lemma startswith_prefix: "startswith s p \<longleftrightarrow> prefix p s"
  by (induction s p rule: startswith.induct) auto

lemma startswith_append: "startswith (p @ tail) p"
  by (simp add: startswith_prefix)

lemma startswith_same_length:
  assumes "startswith (k @ tail) k'" and "length k' = length k"
  shows "k' = k"
proof -
  from assms(1) have "prefix k' (k @ tail)" by (simp add: startswith_prefix)
  then obtain more where "k @ tail = k' @ more" by (auto simp: prefix_def)
  with assms(2) show ?thesis by simp
qed

lemma first_startswith_hit:
  assumes "(k, z) \<in> set items"
    and "distinct (map fst items)"
    and "\<forall>kz \<in> set items. length (fst kz) = n"
  shows "first_startswith items (k @ tail) = z"
  using assms
proof (induction items)
  case Nil
  then show ?case by simp
next
  case (Cons item items)
  obtain k' z' where item: "item = (k', z')" by (cases item)
  show ?case
  proof (cases "startswith (k @ tail) k'")
    case True
    from Cons.prems(1,3) item have "length k' = length k" by auto
    with True have same: "k' = k" by (rule startswith_same_length)
    have "z' = z"
    proof (rule ccontr)
      assume "z' \<noteq> z"
      with Cons.prems(1) item same have "(k, z) \<in> set items" by auto
      then have "k \<in> fst ` set items" by force
      with Cons.prems(2) item same show False by simp
    qed
    with True item show ?thesis by simp
  next
    case False
    then have "k' \<noteq> k" using startswith_append by auto
    with Cons.prems(1) item have "(k, z) \<in> set items" by auto
    moreover from Cons.prems(2) have "distinct (map fst items)" by simp
    moreover from Cons.prems(3) have "\<forall>kz \<in> set items. length (fst kz) = n" by simp
    ultimately have "first_startswith items (k @ tail) = z" by (rule Cons.IH)
    with False item show ?thesis by simp
  qed
qed

lemma first_startswith_miss:
  "\<forall>kz \<in> set items. \<not> startswith timezone (fst kz) \<Longrightarrow> first_startswith items timezone = timezone"
  by (induction items) auto

lemma utc_to_iana_length: "length utc_to_iana = 27"
  by (simp add: utc_to_iana_def)

lemma utc_to_iana_distinct: "distinct (map fst utc_to_iana)"
  by (simp add: utc_to_iana_def)

lemma utc_to_iana_key_length: "\<forall>kz \<in> set utc_to_iana. length (fst kz) = 9"
  by (simp add: utc_to_iana_def)

lemma utc_to_iana_keys:
  "set (map fst utc_to_iana)
     = set (map whole_hour_label [-12..12]) \<union> {''UTC+05:30'', ''UTC+09:30''}"
  by code_simp

subsection \<open>Outcomes of the filter\<close>

lemma omap_Raises_iff: "omap f x = Raises e \<longleftrightarrow> x = Raises e"
  by (cases x) simp_all

lemma re_search_Nil: "re_search [] s"
  by (cases s) simp_all

lemma re_compile_empty: "re_compile [] = Compiled []"
  by (simp add: re_compile_def)

lemma filter_by_zip: "map fst (filter snd (zip xs (map g xs))) = filter g xs"
  by (induction xs) simp_all

lemma re_parse_plain:
  "list_all (\<lambda>c. c \<noteq> CHR ''('' \<and> c \<noteq> CHR '')'' \<and> c \<noteq> CHR ''.'') q
     \<Longrightarrow> re_parse d q = (if d = 0 then Some (map Lit q) else None)"
  by (induction q) auto

lemma re_compile_plain: "plain_query q \<Longrightarrow> re_compile q = Compiled (map Lit q)"
proof -
  assume p: "plain_query q"
  then have "\<not> (\<exists>c \<in> set q. c \<in> set other_special \<or> \<not> is_ascii c)"
    by (auto simp: plain_query_def list_all_iff)
  moreover from p have "re_parse 0 q = Some (map Lit q)"
    using re_parse_plain [of q 0] by (simp add: plain_query_def list_all_iff)
  ultimately show ?thesis by (simp add: re_compile_def)
qed

lemma match_here_Lit: "match_here (map Lit q) s \<longleftrightarrow> prefix (map ascii_lower q) (map ascii_lower s)"
proof (induction q arbitrary: s)
  case Nil
  then show ?case by simp
next
  case (Cons c q)
  then show ?case by (cases s) auto
qed

lemma re_search_Lit: "re_search (map Lit q) s \<longleftrightarrow> contains_ignoring_case s q"
proof (induction s)
  case Nil
  then show ?case by (cases q) (simp_all add: contains_ignoring_case_def)
next
  case (Cons t ts)
  then show ?case
    by (simp add: contains_ignoring_case_def match_here_Lit sublist_Cons_right)
qed

lemma filter_zip_empty:
  "length keep = length xs \<Longrightarrow>
   map fst (filter snd (zip xs keep)) = [] \<longleftrightarrow> (\<forall>b \<in> set keep. \<not> b)"
proof (induction xs arbitrary: keep)
  case Nil
  then show ?case by simp
next
  case (Cons x xs)
  then show ?case by (cases keep) auto
qed

lemma not_found_iff:
  assumes "''name'' \<in> set (columns df)"
    and "str_contains (map (\<lambda>r. row_cell r ''name'') (rows df)) q = Returns keep"
    and "length keep = length (rows df)"
  shows "get_timezone df q = Raises (ValueError (not_found_message q)) \<longleftrightarrow> (\<forall>b \<in> set keep. \<not> b)"
proof -
  let ?cd = "boolean_index df keep"
  have col: "getitem_column df ''name'' = Returns (map (\<lambda>r. row_cell r ''name'') (rows df))"
    using assms(1) by (simp add: getitem_column_def)
  have cols: "columns ?cd = columns df" by (simp add: boolean_index_def)
  from assms(1) have ne: "columns df \<noteq> []" by auto
  have emp: "df_empty ?cd \<longleftrightarrow> (\<forall>b \<in> set keep. \<not> b)"
    using filter_zip_empty [OF assms(3)] ne by (simp add: df_empty_def boolean_index_def)
  show ?thesis
  proof (cases "df_empty ?cd")
    case True
    with col assms(2) emp show ?thesis
      by (simp add: get_timezone_def first_timezone_def Let_def)
  next
    case False
    with col assms(2) have "first_timezone df q \<noteq> Raises (ValueError (not_found_message q))"
      by (simp add: first_timezone_def Let_def split: list.splits cell.splits option.splits)
    with False emp show ?thesis by (simp add: get_timezone_def omap_Raises_iff)
  qed
qed

subsection \<open>Queries with special characters\<close>

text \<open>
  C2. The claim: a query that is in no record's name as a case-insensitive substring makes
  \<^verbatim>\<open>get_timezone\<close> fail with the not-found error, and a query that is in some name does not.
  The source calls \<^verbatim>\<open>str.contains\<close> without \<^verbatim>\<open>regex=False\<close>, so the query is a regular
  expression. On the sample table the name \<^verbatim>\<open>Bolivia (Plurinational State of)\<close>, given as
  the query, is reported as not found although a record has exactly that name (the
  parentheses group, they do not match themselves), while \<^verbatim>\<open>Ind.a\<close>, which is in no name,
  resolves to the zone of India.
\<close>

theorem get_timezone_regex_query:
  "get_timezone sample_table ''Bolivia (Plurinational State of)''
     = Raises (ValueError (not_found_message ''Bolivia (Plurinational State of)''))
   \<and> get_timezone sample_table ''Bolivia'' = Returns ''America/New_York''
   \<and> get_timezone sample_table ''Ind.a'' = Returns ''Asia/Kolkata''"
  by code_simp

text \<open>
  For a query without special characters, on a table whose names are ASCII, the filter is
  the containment test: the not-found error is raised exactly when no name contains the
  query, letter case aside.
\<close>

lemma get_timezone_plain_query:
  assumes "''name'' \<in> set (columns df)"
    and "rows df = [] \<or> (\<exists>r \<in> set (rows df). row_cell r ''name'' \<noteq> NaN)"
    and "\<forall>r \<in> set (rows df). cell_ascii (row_cell r ''name'')"
    and "plain_query q"
  shows "get_timezone df q = Raises (ValueError (not_found_message q))
    \<longleftrightarrow> \<not> (\<exists>r \<in> set (rows df). \<exists>s. row_cell r ''name'' = Str s \<and> contains_ignoring_case s q)"
proof -
  let ?names = "map (\<lambda>r. row_cell r ''name'') (rows df)"
  let ?hit = "\<lambda>c. case c of NaN \<Rightarrow> False | Str s \<Rightarrow> contains_ignoring_case s q"
  from assms(2) have a: "\<not> (?names \<noteq> [] \<and> list_all (\<lambda>c. c = NaN) ?names)"
    by (auto simp: list_all_iff)
  from assms(3) have b: "list_all cell_ascii ?names" by (simp add: list_all_iff)
  have sc: "str_contains ?names q = Returns (map ?hit ?names)"
    using a b by (simp add: str_contains_def re_compile_plain [OF assms(4)] re_search_Lit
        cong: cell.case_cong)
  have "get_timezone df q = Raises (ValueError (not_found_message q))
      \<longleftrightarrow> (\<forall>b \<in> set (map ?hit ?names). \<not> b)"
    using assms(1) sc by (rule not_found_iff) simp
  also have "\<dots> \<longleftrightarrow> \<not> (\<exists>r \<in> set (rows df). \<exists>s. row_cell r ''name'' = Str s \<and> contains_ignoring_case s q)"
    by (auto split: cell.splits)
  finally show ?thesis .
qed

subsection \<open>The offset table\<close>

text \<open>
  C3, as stated, gives the table exactly 25 entries. The dictionary of the source has 27:
  the 25 whole hours and the two half hours.
\<close>

theorem table_size_counterexample: "\<not> (length utc_to_iana = 25)"
  by (simp add: utc_to_iana_def)

text \<open>
  C3, amended. The table has 27 entries, whose keys are the 25 whole-hour labels from
  \<^verbatim>\<open>UTC-12:00\<close> to \<^verbatim>\<open>UTC+12:00\<close> together with \<^verbatim>\<open>UTC+05:30\<close> and \<^verbatim>\<open>UTC+09:30\<close>. Whenever the
  first label stored for the first matching record is a key of the table, alone or followed
  by any further text, \<^verbatim>\<open>get_timezone\<close> returns the zone mapped to that key.
\<close>

theorem get_timezone_table_key:
  assumes "(utc_offset, iana_zone) \<in> set utc_to_iana"
    and "first_timezone countries_data country_name = Returns (utc_offset @ tail)"
  shows "length utc_to_iana = 27
    \<and> set (map fst utc_to_iana)
        = set (map whole_hour_label [-12..12]) \<union> {''UTC+05:30'', ''UTC+09:30''}
    \<and> get_timezone countries_data country_name = Returns iana_zone"
proof -
  have "first_startswith utc_to_iana (utc_offset @ tail) = iana_zone"
    using assms(1) utc_to_iana_distinct utc_to_iana_key_length by (rule first_startswith_hit)
  with assms(2) have "get_timezone countries_data country_name = Returns iana_zone"
    by (simp add: get_timezone_def)
  with utc_to_iana_length utc_to_iana_keys show ?thesis by simp
qed

theorem get_timezone_table_key_witness:
  "(''UTC+09:00'', ''Asia/Tokyo'') \<in> set utc_to_iana
   \<and> first_timezone sample_table ''Japan'' = Returns (''UTC+09:00'' @ '' (JST)'')
   \<and> get_timezone sample_table ''Japan'' = Returns ''Asia/Tokyo''"
proof -
  have k: "(''UTC+09:00'', ''Asia/Tokyo'') \<in> set utc_to_iana"
    by (simp add: utc_to_iana_def)
  have f: "first_timezone sample_table ''Japan'' = Returns (''UTC+09:00'' @ '' (JST)'')"
    by code_simp
  from get_timezone_table_key [OF k f] k f show ?thesis by simp
qed

text \<open>
  C4. Whenever the first label stored for the first matching record starts with no key of
  the table, \<^verbatim>\<open>get_timezone\<close> returns that label unchanged: it neither raises nor drops it.
\<close>

theorem get_timezone_passthrough:
  assumes "first_timezone countries_data country_name = Returns label"
    and "\<forall>(utc_offset, iana_zone) \<in> set utc_to_iana. \<not> prefix utc_offset label"
  shows "get_timezone countries_data country_name = Returns label"
proof -
  from assms(2) have "\<forall>kz \<in> set utc_to_iana. \<not> startswith label (fst kz)"
    by (auto simp: startswith_prefix)
  then have "first_startswith utc_to_iana label = label"
    by (rule first_startswith_miss)
  with assms(1) show ?thesis by (simp add: get_timezone_def)
qed

theorem get_timezone_passthrough_witness:
  "first_timezone sample_table ''Nepal'' = Returns ''UTC+05:45''
   \<and> list_all (\<lambda>(utc_offset, iana_zone). \<not> prefix utc_offset ''UTC+05:45'') utc_to_iana
   \<and> get_timezone sample_table ''Nepal'' = Returns ''UTC+05:45''"
proof -
  have f: "first_timezone sample_table ''Nepal'' = Returns ''UTC+05:45''"
    by code_simp
  have n: "\<forall>(utc_offset, iana_zone) \<in> set utc_to_iana. \<not> prefix utc_offset ''UTC+05:45''"
    by (simp add: utc_to_iana_def)
  from get_timezone_passthrough [OF f n] f n show ?thesis by (simp add: list_all_iff)
qed

subsection \<open>The table after a failed load\<close>

text \<open>
  C5. The claim: after a failed load the table is empty and every call of \<^verbatim>\<open>get_timezone\<close>
  fails with the not-found error and no other. The first half holds. The table left by the
  handler is \<^verbatim>\<open>pd.DataFrame()\<close>, which has no \<^verbatim>\<open>name\<close> column, so every call stops at
  \<^verbatim>\<open>countries_data['name']\<close> with a \<^verbatim>\<open>KeyError\<close>, before the test that raises the not-found
  error is reached.
\<close>

theorem get_timezone_after_failed_load:
  "fst (load_country_data (Inl e)) = DataFrame_empty
   \<and> get_timezone (fst (load_country_data (Inl e))) country_name = Raises (KeyError ''name'')"
  by (simp add: load_country_data_def DataFrame_empty_def get_timezone_def first_timezone_def
      getitem_column_def)

theorem get_timezone_after_failed_load_witness:
  "fst (load_country_data (Inl (FileNotFoundError ''countries_data.csv''))) = DataFrame_empty
   \<and> get_timezone (fst (load_country_data (Inl (FileNotFoundError ''countries_data.csv''))))
        ''France'' = Raises (KeyError ''name'')"
  by (rule get_timezone_after_failed_load)

subsection \<open>The empty query\<close>

text \<open>
  C6, as stated, makes the empty query fail on every table. The empty pattern matches every
  name, so on the sample table the first record is resolved.
\<close>

theorem empty_query_counterexample:
  "get_timezone sample_table '''' = Returns ''Pacific/Honolulu''"
  by code_simp

text \<open>
  C6, amended. The empty query fails with the not-found error exactly on a table that has
  the \<^verbatim>\<open>name\<close> column and no rows.
\<close>

theorem get_timezone_empty_query:
  "get_timezone df '''' = Raises (ValueError (not_found_message ''''))
    \<longleftrightarrow> ''name'' \<in> set (columns df) \<and> rows df = []"
proof (cases "''name'' \<in> set (columns df)")
  case False
  then show ?thesis
    by (simp add: get_timezone_def first_timezone_def getitem_column_def omap_Raises_iff)
next
  case True
  define names where "names = map (\<lambda>r. row_cell r ''name'') (rows df)"
  have col: "getitem_column df ''name'' = Returns names"
    using True by (simp add: getitem_column_def names_def)
  show ?thesis
  proof (cases "rows df = []")
    case True
    with \<open>''name'' \<in> set (columns df)\<close> show ?thesis
      by (simp add: get_timezone_def first_timezone_def getitem_column_def str_contains_def
          re_compile_empty boolean_index_def df_empty_def)
  next
    case False
    note nonempty = False
    have "first_timezone df '''' \<noteq> Raises (ValueError (not_found_message ''''))"
    proof (cases "list_all (\<lambda>c. c = NaN) names")
      case True
      with nonempty have "str_contains names '''' =
          Raises (AttributeError ''Can only use .str accessor with string values!'')"
        by (simp add: str_contains_def names_def)
      with col show ?thesis by (simp add: first_timezone_def)
    next
      case someone: False
      show ?thesis
      proof (cases "list_all cell_ascii names")
        case False
        with someone have "str_contains names '''' = Unmodelled"
          by (simp add: str_contains_def)
        with col show ?thesis by (simp add: first_timezone_def)
      next
        case True
        let ?named = "\<lambda>c. case c of NaN \<Rightarrow> False | Str s \<Rightarrow> True"
        from True someone have sc: "str_contains names '''' = Returns (map ?named names)"
          by (simp add: str_contains_def re_compile_empty re_search_Nil cong: cell.case_cong)
        have rows_kept: "rows (boolean_index df (map ?named names))
            = filter (\<lambda>r. ?named (row_cell r ''name'')) (rows df)"
          using filter_by_zip [of "rows df" "\<lambda>r. ?named (row_cell r ''name'')"]
          by (simp add: boolean_index_def names_def comp_def)
        from someone obtain r where "r \<in> set (rows df)" "row_cell r ''name'' \<noteq> NaN"
          by (auto simp: names_def list_all_iff)
        then have "filter (\<lambda>r. ?named (row_cell r ''name'')) (rows df) \<noteq> []"
          by (auto simp: filter_empty_conv split: cell.splits)
        with rows_kept have kept: "rows (boolean_index df (map ?named names)) \<noteq> []" by simp
        have cols: "columns (boolean_index df (map ?named names)) = columns df"
          by (simp add: boolean_index_def)
        from \<open>''name'' \<in> set (columns df)\<close> have "columns df \<noteq> []" by auto
        with kept cols have "\<not> df_empty (boolean_index df (map ?named names))"
          by (simp add: df_empty_def)
        with col sc kept show ?thesis
          by (simp add: first_timezone_def Let_def split: list.splits cell.splits option.splits)
      qed
    qed
    with nonempty show ?thesis by (simp add: get_timezone_def omap_Raises_iff)
  qed
qed

theorem get_timezone_empty_query_witness:
  "get_timezone (country_table []) '''' = Raises (ValueError (not_found_message ''''))
   \<and> get_timezone sample_table '''' \<noteq> Raises (ValueError (not_found_message ''''))"
  using get_timezone_empty_query [of "country_table []"] get_timezone_empty_query [of sample_table]
  by (simp add: country_table_def sample_table_def)

section \<open>Properties of the calculator\<close>

lemma wall_seconds_replace:
  "wall_seconds (now\<lparr>hour := h, minute := 0, second := 0, microsecond := 0\<rparr>) = hour_on_day now h"
  by (simp add: wall_seconds_def hour_on_day_def algebra_simps)

lemma replace_hour_ok:
  "0 \<le> h \<Longrightarrow> h \<le> 23 \<Longrightarrow>
   replace_hour now h = Returns (now\<lparr>hour := h, minute := 0, second := 0, microsecond := 0\<rparr>)"
  by (simp add: replace_hour_def)

lemma overlap_interval_in_range:
  assumes "0 \<le> wake1" "wake1 \<le> 23" "0 \<le> sleep1" "sleep1 \<le> 23"
    and "0 \<le> wake2" "wake2 \<le> 23" "0 \<le> sleep2" "sleep2 \<le> 23"
  shows "overlap_interval tz1 tz2 now (wake1, sleep1) (wake2, sleep2) =
    Returns (max (localize_utc tz1 (hour_on_day now wake1)) (localize_utc tz2 (hour_on_day now wake2)),
             min (localize_utc tz1 (hour_on_day now sleep1)) (localize_utc tz2 (hour_on_day now sleep2)))"
  using assms
  by (simp add: overlap_interval_def replace_hour_ok wall_seconds_replace Let_def)

lemma two_digits_shape:
  assumes "n < 100"
  shows "two_digits n = [a, b] \<Longrightarrow> is_digit a \<and> is_digit b \<and> 10 * digit_value a + digit_value b = n"
  using assms
  by (auto simp: two_digits_def digit_char_def is_digit_def digit_value_def)

lemma is_hhmm_strftime: "is_hhmm (strftime_HM w)"
proof -
  define h where "h = nat ((w div 3600) mod 24)"
  define m where "m = nat ((w div 60) mod 60)"
  have h: "h < 24" and m: "m < 60" by (simp_all add: h_def m_def nat_less_iff)
  obtain a b where hd: "two_digits h = [a, b]" by (simp add: two_digits_def)
  obtain d e where md: "two_digits m = [d, e]" by (simp add: two_digits_def)
  from h have "h < 100" by simp
  from two_digits_shape [OF this hd]
  have A: "is_digit a" "is_digit b" "10 * digit_value a + digit_value b = h" by simp_all
  from m have "m < 100" by simp
  from two_digits_shape [OF this md]
  have B: "is_digit d" "is_digit e" "10 * digit_value d + digit_value e = m" by simp_all
  have "strftime_HM w = [a, b, CHR '':'', d, e]"
    using hd md by (simp add: strftime_HM_def h_def m_def)
  with A B h m show ?thesis by simp
qed

lemma length_strftime: "length (strftime_HM w) = 5"
  by (simp add: strftime_HM_def two_digits_def)

lemma is_time_range_time_range: "is_time_range (time_range a b)"
  by (simp add: is_time_range_def time_range_def length_strftime is_hhmm_strftime)

lemma two_digits_zero: "two_digits 0 = ''00''"
  by code_simp

lemma strftime_on_the_hour:
  assumes "0 \<le> h" "h \<le> 23"
  shows "strftime_HM (hour_on_day now h) = two_digits (nat h) @ '':00''"
proof -
  have "hour_on_day now h div 3600 = ordinal now * 24 + h"
    by (simp add: hour_on_day_def)
  then have H: "(hour_on_day now h div 3600) mod 24 = h"
    using assms by simp
  have "hour_on_day now h div 60 = (ordinal now * 1440 + h * 60)"
    by (simp add: hour_on_day_def)
  then have M: "(hour_on_day now h div 60) mod 60 = 0"
    by simp
  show ?thesis
    using two_digits_zero by (simp add: strftime_HM_def H M)
qed

lemma omap_obind: "omap g (obind x f) = obind x (\<lambda>v. omap g (f v))"
  by (cases x) simp_all

lemma replace_hour_order:
  "overlap_interval tz1 tz2 now (2147483648, 23) (24, 23) = Raises OverflowError"
  "overlap_interval tz2 tz1 now (24, 23) (2147483648, 23) = Raises (ValueError ''hour must be in 0..23'')"
  by (simp_all add: overlap_interval_def replace_hour_def)

text \<open>
  C7. For windows with hours in 0..23, exchanging the two persons (zones and windows
  together) leaves the UTC interval and the outcome unchanged: the advisory message is
  the same, and a success has the same UTC range with the two local ranges exchanged.
  (With an hour outside 0..23 both orders raise, but the exception is that of the first
  bad hour met, which depends on the order.)
\<close>

theorem compute_overlap_symmetric:
  assumes "0 \<le> wake1" "wake1 \<le> 23" "0 \<le> sleep1" "sleep1 \<le> 23"
    and "0 \<le> wake2" "wake2 \<le> 23" "0 \<le> sleep2" "sleep2 \<le> 23"
  shows "overlap_interval tz2 tz1 now (wake2, sleep2) (wake1, sleep1)
           = overlap_interval tz1 tz2 now (wake1, sleep1) (wake2, sleep2)
   \<and> compute_overlap tz2 tz1 now (wake2, sleep2) (wake1, sleep1)
       = omap swap_countries (compute_overlap tz1 tz2 now (wake1, sleep1) (wake2, sleep2))"
proof -
  have i1: "overlap_interval tz1 tz2 now (wake1, sleep1) (wake2, sleep2) =
    Returns (max (localize_utc tz1 (hour_on_day now wake1)) (localize_utc tz2 (hour_on_day now wake2)),
             min (localize_utc tz1 (hour_on_day now sleep1)) (localize_utc tz2 (hour_on_day now sleep2)))"
    using assms by (rule overlap_interval_in_range)
  have i2: "overlap_interval tz2 tz1 now (wake2, sleep2) (wake1, sleep1) =
    Returns (max (localize_utc tz2 (hour_on_day now wake2)) (localize_utc tz1 (hour_on_day now wake1)),
             min (localize_utc tz2 (hour_on_day now sleep2)) (localize_utc tz1 (hour_on_day now sleep1)))"
    using assms(5-8) assms(1-4) by (rule overlap_interval_in_range)
  have same: "overlap_interval tz2 tz1 now (wake2, sleep2) (wake1, sleep1)
      = overlap_interval tz1 tz2 now (wake1, sleep1) (wake2, sleep2)"
    by (simp add: i1 i2 max.commute min.commute)
  have "compute_overlap tz2 tz1 now (wake2, sleep2) (wake1, sleep1)
      = omap swap_countries (compute_overlap tz1 tz2 now (wake1, sleep1) (wake2, sleep2))"
    unfolding compute_overlap_def same by (simp add: i1)
  with same show ?thesis by simp
qed

theorem compute_overlap_symmetric_witness:
  "compute_overlap (fixed_offset (- 28800)) (fixed_offset 19800) sample_now (8, 22) (7, 23)
     = Returns (Success ''08:00 to 09:30'' ''21:30 to 23:00'' ''16:00 to 17:30'')
   \<and> compute_overlap (fixed_offset 19800) (fixed_offset (- 28800)) sample_now (7, 23) (8, 22)
     = Returns (Success ''21:30 to 23:00'' ''08:00 to 09:30'' ''16:00 to 17:30'')"
proof -
  have a: "compute_overlap (fixed_offset 19800) (fixed_offset (- 28800)) sample_now (7, 23) (8, 22)
     = Returns (Success ''21:30 to 23:00'' ''08:00 to 09:30'' ''16:00 to 17:30'')"
    by code_simp
  have "compute_overlap (fixed_offset (- 28800)) (fixed_offset 19800) sample_now (8, 22) (7, 23)
     = omap swap_countries
         (compute_overlap (fixed_offset 19800) (fixed_offset (- 28800)) sample_now (7, 23) (8, 22))"
    using compute_overlap_symmetric
      [of 7 23 8 22 "fixed_offset (- 28800)" "fixed_offset 19800" sample_now]
    by simp
  with a show ?thesis by simp
qed

text \<open>
  C9. The result of \<^verbatim>\<open>find_best_talk_time\<close> does not depend on \<^verbatim>\<open>sleep_hours1\<close> and
  \<^verbatim>\<open>sleep_hours2\<close>: two calls that differ only there give the same result.
\<close>

theorem sleep_hours_unused:
  "find_best_talk_time db countries_data now country1 country2
       wake_hours1 sleep_hours1 wake_hours2 sleep_hours2
   = find_best_talk_time db countries_data now country1 country2
       wake_hours1 sleep_hours1' wake_hours2 sleep_hours2'"
  by (simp add: find_best_talk_time_def)

theorem sleep_hours_unused_witness:
  "find_best_talk_time sample_zones sample_table sample_now ''India'' ''United States''
       (7, 23) (7, 23) (8, 22) (8, 22)
   = find_best_talk_time sample_zones sample_table sample_now ''India'' ''United States''
       (7, 23) (0, 0) (8, 22) (23, 1)"
  by (rule sleep_hours_unused)


lemma compute_overlap_in_range:
  assumes "0 \<le> wake1" "wake1 \<le> 23" "0 \<le> sleep1" "sleep1 \<le> 23"
    and "0 \<le> wake2" "wake2 \<le> 23" "0 \<le> sleep2" "sleep2 \<le> 23"
  shows "compute_overlap tz1 tz2 now (wake1, sleep1) (wake2, sleep2) =
    (let overlap_start = max (localize_utc tz1 (hour_on_day now wake1))
                             (localize_utc tz2 (hour_on_day now wake2));
         overlap_end = min (localize_utc tz1 (hour_on_day now sleep1))
                           (localize_utc tz2 (hour_on_day now sleep2))
     in if overlap_start < overlap_end
        then Returns (Success
               (time_range (utc_to_wall tz1 overlap_start) (utc_to_wall tz1 overlap_end))
               (time_range (utc_to_wall tz2 overlap_start) (utc_to_wall tz2 overlap_end))
               (time_range overlap_start overlap_end))
        else Returns (Error advisory))"
  unfolding compute_overlap_def overlap_interval_in_range [OF assms]
  by (simp add: Let_def)

lemma find_best_talk_time_resolved:
  assumes "get_timezone countries_data country1 = Returns zone1" and "db zone1 = Some tz1"
    and "get_timezone countries_data country2 = Returns zone2" and "db zone2 = Some tz2"
  shows "find_best_talk_time db countries_data now country1 country2
           wake_hours1 sleep_hours1 wake_hours2 sleep_hours2
         = compute_overlap tz1 tz2 now wake_hours1 wake_hours2"
  using assms by (simp add: find_best_talk_time_def pytz_timezone_def)

lemma find_best_talk_time_Returns:
  assumes "find_best_talk_time db countries_data now country1 country2
             wake_hours1 sleep_hours1 wake_hours2 sleep_hours2 = Returns r"
  shows "\<exists>tz1 tz2. compute_overlap tz1 tz2 now wake_hours1 wake_hours2 = Returns r"
proof -
  obtain zone1 where z1: "get_timezone countries_data country1 = Returns zone1"
    using assms by (cases "get_timezone countries_data country1")
      (simp_all add: find_best_talk_time_def)
  obtain tz1 where t1: "db zone1 = Some tz1"
    using assms z1 by (cases "db zone1") (simp_all add: find_best_talk_time_def pytz_timezone_def)
  obtain zone2 where z2: "get_timezone countries_data country2 = Returns zone2"
    using assms z1 t1 by (cases "get_timezone countries_data country2")
      (simp_all add: find_best_talk_time_def pytz_timezone_def)
  obtain tz2 where t2: "db zone2 = Some tz2"
    using assms z1 t1 z2 by (cases "db zone2")
      (simp_all add: find_best_talk_time_def pytz_timezone_def)
  from assms find_best_talk_time_resolved [OF z1 t1 z2 t2] show ?thesis by auto
qed

lemma compute_overlap_Success:
  assumes "compute_overlap tz1 tz2 now wake_hours1 wake_hours2 = Returns (Success r1 r2 r3)"
  shows "\<exists>overlap_start overlap_end.
           overlap_interval tz1 tz2 now wake_hours1 wake_hours2 = Returns (overlap_start, overlap_end)
           \<and> overlap_start < overlap_end"
  using assms
  by (cases "overlap_interval tz1 tz2 now wake_hours1 wake_hours2")
     (auto simp: compute_overlap_def split: if_splits)

lemma overlap_interval_Returns:
  assumes "overlap_interval tz1 tz2 now wake_hours1 wake_hours2 = Returns (overlap_start, overlap_end)"
  shows "overlap_start = max (localize_utc tz1 (hour_on_day now (fst wake_hours1)))
                             (localize_utc tz2 (hour_on_day now (fst wake_hours2)))
       \<and> overlap_end = min (localize_utc tz1 (hour_on_day now (snd wake_hours1)))
                           (localize_utc tz2 (hour_on_day now (snd wake_hours2)))"
  using assms
  by (auto simp: overlap_interval_def replace_hour_def wall_seconds_replace Let_def
      split: if_splits)

lemma digit_char_values:
  "digit_char 0 = CHR ''0''" "digit_char 1 = CHR ''1''" "digit_char 2 = CHR ''2''"
  "digit_char 3 = CHR ''3''" "digit_char 4 = CHR ''4''" "digit_char 5 = CHR ''5''"
  "digit_char 6 = CHR ''6''" "digit_char 7 = CHR ''7''" "digit_char 8 = CHR ''8''"
  "digit_char 9 = CHR ''9''" "digit_char (Suc 0) = CHR ''1''"
  by code_simp+

lemma fixed_offset_round_trip: "utc_to_wall (fixed_offset off) (localize_utc (fixed_offset off) w) = w"
  by (simp add: fixed_offset_def)

lemma fixed_offset_monotone:
  "wake < sleep \<Longrightarrow> localize_utc (fixed_offset off) (hour_on_day now wake)
     < localize_utc (fixed_offset off) (hour_on_day now sleep)"
  by (simp add: fixed_offset_def hour_on_day_def)

text \<open>
  C1. When both countries resolve to zones of the database and the four hours are in 0..23,
  the four wake times are taken on the date of the one shared \<open>now\<close>, converted to UTC, and
  intersected: the start is the later of the two starts and the end the earlier of the two
  ends. The result is a success with the three ranges exactly when the start is before the
  end, and the returned advisory message otherwise; no exception is raised. Each range of a
  success has the shape \<^verbatim>\<open>HH:MM to HH:MM\<close>, zero-padded, hours below 24.
\<close>

theorem find_best_talk_time_overlap:
  assumes "get_timezone countries_data country1 = Returns zone1" and "db zone1 = Some tz1"
    and "get_timezone countries_data country2 = Returns zone2" and "db zone2 = Some tz2"
    and "0 \<le> wake1" "wake1 \<le> 23" "0 \<le> sleep1" "sleep1 \<le> 23"
    and "0 \<le> wake2" "wake2 \<le> 23" "0 \<le> sleep2" "sleep2 \<le> 23"
  shows "(let overlap_start = max (localize_utc tz1 (hour_on_day now wake1))
                                  (localize_utc tz2 (hour_on_day now wake2));
              overlap_end = min (localize_utc tz1 (hour_on_day now sleep1))
                                (localize_utc tz2 (hour_on_day now sleep2))
          in overlap_interval tz1 tz2 now (wake1, sleep1) (wake2, sleep2)
               = Returns (overlap_start, overlap_end)
           \<and> find_best_talk_time db countries_data now country1 country2
                 (wake1, sleep1) sleep_hours1 (wake2, sleep2) sleep_hours2
              = (if overlap_start < overlap_end
                 then Returns (Success
                   (time_range (utc_to_wall tz1 overlap_start) (utc_to_wall tz1 overlap_end))
                   (time_range (utc_to_wall tz2 overlap_start) (utc_to_wall tz2 overlap_end))
                   (time_range overlap_start overlap_end))
                 else Returns (Error advisory))
           \<and> is_time_range
                (time_range (utc_to_wall tz1 overlap_start) (utc_to_wall tz1 overlap_end))
           \<and> is_time_range
                (time_range (utc_to_wall tz2 overlap_start) (utc_to_wall tz2 overlap_end))
           \<and> is_time_range (time_range overlap_start overlap_end))"
proof -
  have "find_best_talk_time db countries_data now country1 country2
           (wake1, sleep1) sleep_hours1 (wake2, sleep2) sleep_hours2
        = compute_overlap tz1 tz2 now (wake1, sleep1) (wake2, sleep2)"
    using assms(1-4) by (rule find_best_talk_time_resolved)
  then show ?thesis
    by (simp add: overlap_interval_in_range [OF assms(5-12)]
        compute_overlap_in_range [OF assms(5-12)] Let_def is_time_range_time_range)
qed

theorem find_best_talk_time_overlap_witness:
  "find_best_talk_time sample_zones sample_table sample_now ''India'' ''United States''
       (7, 23) (7, 23) (7, 23) (7, 23)
     = Returns (Success ''20:30 to 23:00'' ''07:00 to 09:30'' ''15:00 to 17:30'')
   \<and> find_best_talk_time sample_zones sample_table sample_now ''India'' ''United States''
       (8, 9) (8, 9) (8, 9) (8, 9)
     = Returns (Error advisory)"
proof -
  have z1: "get_timezone sample_table ''India'' = Returns ''Asia/Kolkata''" by code_simp
  have t1: "sample_zones ''Asia/Kolkata'' = Some (fixed_offset 19800)"
    by (simp add: sample_zones_def)
  have z2: "get_timezone sample_table ''United States'' = Returns ''America/Los_Angeles''"
    by code_simp
  have t2: "sample_zones ''America/Los_Angeles'' = Some (fixed_offset (- 28800))"
    by (simp add: sample_zones_def)
  have a: "find_best_talk_time sample_zones sample_table sample_now ''India'' ''United States''
       (7, 23) (7, 23) (7, 23) (7, 23)
     = Returns (Success ''20:30 to 23:00'' ''07:00 to 09:30'' ''15:00 to 17:30'')"
    using find_best_talk_time_overlap [OF z1 t1 z2 t2, of 7 23 7 23 sample_now "(7, 23)" "(7, 23)"]
    by (simp add: fixed_offset_def hour_on_day_def sample_now_def time_range_def strftime_HM_def
        two_digits_def digit_char_values Let_def)
  have b: "find_best_talk_time sample_zones sample_table sample_now ''India'' ''United States''
       (8, 9) (8, 9) (8, 9) (8, 9)
     = Returns (Error advisory)"
    using find_best_talk_time_overlap [OF z1 t1 z2 t2, of 8 9 8 9 sample_now "(8, 9)" "(8, 9)"]
    by (simp add: fixed_offset_def hour_on_day_def sample_now_def Let_def)
  from a b show ?thesis by simp
qed

text \<open>
  C8, as stated, makes all three ranges of the result the window itself. The UTC range is
  the window moved by the zone's offset: at five and a half hours ahead of UTC the window
  7 to 23 gives the UTC range \<^verbatim>\<open>01:30 to 17:30\<close>.
\<close>

theorem identical_windows_counterexample:
  "compute_overlap (fixed_offset 19800) (fixed_offset 19800) sample_now (7, 23) (7, 23)
     \<noteq> Returns (Success ''07:00 to 23:00'' ''07:00 to 23:00'' ''07:00 to 23:00'')"
  by code_simp

text \<open>
  C8, amended. For a window with \<open>wake < sleep\<close>, hours in 0..23, given to both persons
  in one zone in which the two local times convert to UTC in that order and back to
  themselves (as they do at any fixed offset), the result is a success; both local ranges
  are the window, \<^verbatim>\<open>wake:00 to sleep:00\<close>, and the UTC range is the window converted to UTC.
\<close>

theorem identical_windows:
  assumes "0 \<le> wake" and "wake < sleep" and "sleep \<le> 23"
    and "localize_utc tz (hour_on_day now wake) < localize_utc tz (hour_on_day now sleep)"
    and "utc_to_wall tz (localize_utc tz (hour_on_day now wake)) = hour_on_day now wake"
    and "utc_to_wall tz (localize_utc tz (hour_on_day now sleep)) = hour_on_day now sleep"
  shows "compute_overlap tz tz now (wake, sleep) (wake, sleep)
    = Returns (Success (window_text wake sleep) (window_text wake sleep)
        (time_range (localize_utc tz (hour_on_day now wake))
                    (localize_utc tz (hour_on_day now sleep))))"
proof -
  from assms(1-3) have r: "0 \<le> wake" "wake \<le> 23" "0 \<le> sleep" "sleep \<le> 23" by simp_all
  have w: "strftime_HM (hour_on_day now wake) = two_digits (nat wake) @ '':00''"
    using r(1,2) by (rule strftime_on_the_hour)
  have s: "strftime_HM (hour_on_day now sleep) = two_digits (nat sleep) @ '':00''"
    using r(3,4) by (rule strftime_on_the_hour)
  have "time_range (hour_on_day now wake) (hour_on_day now sleep) = window_text wake sleep"
    by (simp add: time_range_def window_text_def w s)
  with assms(4-6) show ?thesis
    by (simp add: compute_overlap_in_range [OF r r] Let_def)
qed

theorem identical_windows_witness:
  "compute_overlap (fixed_offset 19800) (fixed_offset 19800) sample_now (7, 23) (7, 23)
     = Returns (Success ''07:00 to 23:00'' ''07:00 to 23:00'' ''01:30 to 17:30'')"
proof -
  have w: "window_text 7 23 = ''07:00 to 23:00''" by code_simp
  have u: "time_range (localize_utc (fixed_offset 19800) (hour_on_day sample_now 7))
                      (localize_utc (fixed_offset 19800) (hour_on_day sample_now 23))
           = ''01:30 to 17:30''" by code_simp
  have m: "localize_utc (fixed_offset 19800) (hour_on_day sample_now 7)
           < localize_utc (fixed_offset 19800) (hour_on_day sample_now 23)"
    by (rule fixed_offset_monotone) simp
  from identical_windows [of 7 23 "fixed_offset 19800" sample_now, OF _ _ _ m
      fixed_offset_round_trip fixed_offset_round_trip] w u
  show ?thesis by simp
qed

text \<open>
  C10. When the wake and sleep hours of either person are equal, the result is never a
  success, whatever the zones, the other window and the date; with all hours in 0..23 it
  is the returned advisory message.
\<close>

theorem empty_window_no_overlap:
  assumes "fst wake_hours1 = snd wake_hours1 \<or> fst wake_hours2 = snd wake_hours2"
  shows "compute_overlap tz1 tz2 now wake_hours1 wake_hours2 \<noteq> Returns (Success r1 r2 r3)
    \<and> find_best_talk_time db countries_data now country1 country2
          wake_hours1 sleep_hours1 wake_hours2 sleep_hours2 \<noteq> Returns (Success r1 r2 r3)
    \<and> (0 \<le> fst wake_hours1 \<and> fst wake_hours1 \<le> 23 \<and> 0 \<le> snd wake_hours1 \<and> snd wake_hours1 \<le> 23
       \<and> 0 \<le> fst wake_hours2 \<and> fst wake_hours2 \<le> 23 \<and> 0 \<le> snd wake_hours2 \<and> snd wake_hours2 \<le> 23
       \<longrightarrow> compute_overlap tz1 tz2 now wake_hours1 wake_hours2 = Returns (Error advisory))"
proof -
  have never: "compute_overlap za zb now wake_hours1 wake_hours2 \<noteq> Returns (Success r1 r2 r3)"
    for za zb
  proof
    assume "compute_overlap za zb now wake_hours1 wake_hours2 = Returns (Success r1 r2 r3)"
    from compute_overlap_Success [OF this] obtain overlap_start overlap_end
      where i: "overlap_interval za zb now wake_hours1 wake_hours2
                  = Returns (overlap_start, overlap_end)"
        and lt: "overlap_start < overlap_end" by blast
    from overlap_interval_Returns [OF i] lt assms show False by auto
  qed
  have "find_best_talk_time db countries_data now country1 country2
          wake_hours1 sleep_hours1 wake_hours2 sleep_hours2 \<noteq> Returns (Success r1 r2 r3)"
    using find_best_talk_time_Returns never by blast
  moreover have "compute_overlap tz1 tz2 now wake_hours1 wake_hours2 = Returns (Error advisory)"
    if "0 \<le> fst wake_hours1 \<and> fst wake_hours1 \<le> 23 \<and> 0 \<le> snd wake_hours1 \<and> snd wake_hours1 \<le> 23
       \<and> 0 \<le> fst wake_hours2 \<and> fst wake_hours2 \<le> 23 \<and> 0 \<le> snd wake_hours2 \<and> snd wake_hours2 \<le> 23"
    using that assms
      compute_overlap_in_range [of "fst wake_hours1" "snd wake_hours1" "fst wake_hours2"
        "snd wake_hours2" tz1 tz2 now]
    by (auto simp: Let_def)
  ultimately show ?thesis using never by blast
qed

theorem empty_window_no_overlap_witness:
  "compute_overlap (fixed_offset 19800) (fixed_offset (- 28800)) sample_now (9, 9) (7, 23)
     = Returns (Error advisory)"
  using empty_window_no_overlap
    [of "(9, 9)" "(7, 23)" "fixed_offset 19800" "fixed_offset (- 28800)" sample_now]
  by simp

end
